theory Spec2Isabelle
  imports Complex_Main "HOL-Library.Sublist"
begin

section \<open>Python strings\<close>

text \<open>
  A Python \<open>str\<close> is modelled as a \<open>string\<close>, a list of characters that are code points
  below 256. Case conversion, whitespace and the regular-expression classes \<open>\\w\<close>, \<open>\\d\<close>
  and \<open>\\s\<close> are those of ASCII: they are Python's on text of code points below 128, and
  they leave the code points from 128 on unchanged and outside every class.
\<close>

definition lower_char :: "char \<Rightarrow> char" where
  "lower_char c =
     (let n = (of_char c :: nat) in if 65 \<le> n \<and> n \<le> 90 then char_of (n + 32) else c)"

definition lower :: "string \<Rightarrow> string" where
  \<comment> \<open>\<open>str.lower()\<close>\<close>
  "lower s = map lower_char s"

definition is_space :: "char \<Rightarrow> bool" where
  \<comment> \<open>\<open>str.isspace\<close> and the class \<open>\\s\<close> on ASCII: tab, LF, VT, FF, CR, FS, GS, RS, US, space\<close>
  "is_space c = (let n = (of_char c :: nat) in (9 \<le> n \<and> n \<le> 13) \<or> (28 \<le> n \<and> n \<le> 32))"

definition is_digit :: "char \<Rightarrow> bool" where
  \<comment> \<open>the class \<open>\\d\<close> on ASCII\<close>
  "is_digit c = (let n = (of_char c :: nat) in 48 \<le> n \<and> n \<le> 57)"

definition is_word :: "char \<Rightarrow> bool" where
  \<comment> \<open>the class \<open>\\w\<close> on ASCII: letters, digits and the underscore\<close>
  "is_word c =
     (let n = (of_char c :: nat)
      in (48 \<le> n \<and> n \<le> 57) \<or> (65 \<le> n \<and> n \<le> 90) \<or> n = 95 \<or> (97 \<le> n \<and> n \<le> 122))"

definition lstrip_by :: "(char \<Rightarrow> bool) \<Rightarrow> string \<Rightarrow> string" where
  "lstrip_by p s = dropWhile p s"

definition rstrip_by :: "(char \<Rightarrow> bool) \<Rightarrow> string \<Rightarrow> string" where
  "rstrip_by p s = rev (dropWhile p (rev s))"

definition strip_by :: "(char \<Rightarrow> bool) \<Rightarrow> string \<Rightarrow> string" where
  "strip_by p s = rstrip_by p (lstrip_by p s)"

definition strip :: "string \<Rightarrow> string" where
  \<comment> \<open>\<open>str.strip()\<close>\<close>
  "strip s = strip_by is_space s"

definition strip_chars :: "string \<Rightarrow> string \<Rightarrow> string" where
  \<comment> \<open>\<open>str.strip(chars)\<close>\<close>
  "strip_chars chars s = strip_by (\<lambda>c. c \<in> set chars) s"

fun collapse_ws :: "string \<Rightarrow> string" where
  \<comment> \<open>\<open>re.sub(r"\\s+", " ", s)\<close>: every maximal run of whitespace becomes one space
     (a whitespace character followed by another is dropped, the last of a run becomes the space)\<close>
  "collapse_ws [] = []"
| "collapse_ws (c # cs) =
     (if is_space c
      then (case cs of
              [] \<Rightarrow> [CHR '' '']
            | d # ds \<Rightarrow> if is_space d then collapse_ws cs else CHR '' '' # collapse_ws cs)
      else c # collapse_ws cs)"

fun startswith :: "string \<Rightarrow> string \<Rightarrow> bool" where
  \<comment> \<open>\<open>s.startswith(p)\<close>\<close>
  "startswith s [] = True"
| "startswith [] (p # ps) = False"
| "startswith (c # cs) (p # ps) = (c = p \<and> startswith cs ps)"

fun py_in :: "string \<Rightarrow> string \<Rightarrow> bool" where
  \<comment> \<open>\<open>k in s\<close> on strings: \<open>k\<close> occurs in \<open>s\<close> as a contiguous substring\<close>
  "py_in k [] = (k = [])"
| "py_in k (c # cs) = (startswith (c # cs) k \<or> py_in k cs)"



section \<open>Classifier (classify.py)\<close>

type_synonym mapping = "string \<times> string"

definition DEFAULT_MAPPING :: "(string \<times> mapping) list" where
  "DEFAULT_MAPPING =
    [(''Earnings'', (''Income'', ''General'')),
     (''Expenses'', (''Others'', ''Others''))]"

definition DETERMINISTIC_KEYWORDS :: "(string \<times> mapping) list" where
  \<comment> \<open>the dict literal, in insertion order\<close>
  "DETERMINISTIC_KEYWORDS =
    [(''payroll'', (''Income'', ''Salary'')),
     (''salary'', (''Income'', ''Salary'')),
     (''direct deposit'', (''Income'', ''Salary'')),
     (''interest'', (''Income'', ''Interest'')),
     (''dividend'', (''Income'', ''Investments'')),
     (''gst credit'', (''Income'', ''Government'')),
     (''rent'', (''Housing'', ''Rent'')),
     (''mortgage'', (''Housing'', ''Mortgage'')),
     (''hydro'', (''Utilities'', ''Electricity'')),
     (''enbridge'', (''Utilities'', ''Gas'')),
     (''rogers'', (''Utilities'', ''Telecom'')),
     (''bell'', (''Utilities'', ''Telecom'')),
     (''telus'', (''Utilities'', ''Telecom'')),
     (''shaw'', (''Utilities'', ''Telecom'')),
     (''internet'', (''Utilities'', ''Telecom'')),
     (''insurance'', (''Insurance'', ''Premiums'')),
     (''property tax'', (''Housing'', ''Taxes'')),
     (''scotia visa payment'', (''Transfers'', ''Credit Card Payment'')),
     (''visa payment'', (''Transfers'', ''Credit Card Payment'')),
     (''xfer'', (''Transfers'', ''Internal Transfer'')),
     (''transfer'', (''Transfers'', ''Internal Transfer'')),
     (''etfr'', (''Transfers'', ''Internal Transfer'')),
     (''uber'', (''Transport'', ''Ride Share'')),
     (''lyft'', (''Transport'', ''Ride Share'')),
     (''shell'', (''Transport'', ''Fuel'')),
     (''esso'', (''Transport'', ''Fuel'')),
     (''petro'', (''Transport'', ''Fuel'')),
     (''petro-canada'', (''Transport'', ''Fuel'')),
     (''costco'', (''Living'', ''Groceries'')),
     (''loblaws'', (''Living'', ''Groceries'')),
     (''walmart'', (''Living'', ''Groceries'')),
     (''sobeys'', (''Living'', ''Groceries'')),
     (''no frills'', (''Living'', ''Groceries'')),
     (''shoppers'', (''Health'', ''Pharmacy'')),
     (''starbucks'', (''Food & Drink'', ''Coffee'')),
     (''tim hortons'', (''Food & Drink'', ''Coffee'')),
     (''mcdonald'', (''Food & Drink'', ''Fast Food'')),
     (''netflix'', (''Entertainment'', ''Streaming'')),
     (''spotify'', (''Entertainment'', ''Streaming'')),
     (''canadian tire'', (''Living'', ''Home'')),
     (''home depot'', (''Living'', ''Home Improvement'')),
     (''amazon'', (''Shopping'', ''Online Retail'')),
     (''airbnb'', (''Travel'', ''Accommodation'')),
     (''uber eats'', (''Food & Drink'', ''Delivery''))]"

definition normalize :: "string \<Rightarrow> string" where
  "normalize text = strip (collapse_ws (lower text))"

fun scan_keywords :: "(string \<times> mapping) list \<Rightarrow> string \<Rightarrow> mapping option" where
  \<comment> \<open>the \<open>for keyword, mapping in ....items()\<close> loop of \<open>deterministic_lookup\<close>\<close>
  "scan_keywords [] description = None"
| "scan_keywords ((keyword, mapping) # rest) description =
     (if py_in keyword description then Some mapping else scan_keywords rest description)"

definition deterministic_lookup :: "string \<Rightarrow> mapping option" where
  "deterministic_lookup description = scan_keywords DETERMINISTIC_KEYWORDS description"


definition FUZZY_TARGETS :: "(string \<times> mapping) list" where
  "FUZZY_TARGETS =
    [(''starbuck'', (''Food & Drink'', ''Coffee'')),
     (''mcdonalds'', (''Food & Drink'', ''Fast Food'')),
     (''wendys'', (''Food & Drink'', ''Fast Food'')),
     (''subway'', (''Food & Drink'', ''Fast Food'')),
     (''shoppers drug mart'', (''Health'', ''Pharmacy'')),
     (''ikea'', (''Living'', ''Home'')),
     (''canadian tire'', (''Living'', ''Home'')),
     (''costco wholesale'', (''Living'', ''Groceries'')),
     (''longos'', (''Living'', ''Groceries'')),
     (''freshco'', (''Living'', ''Groceries'')),
     (''no frills'', (''Living'', ''Groceries'')),
     (''uber trip'', (''Transport'', ''Ride Share'')),
     (''uber eats'', (''Food & Drink'', ''Delivery''))]"

text \<open>
  Exceptions are values. \<open>HTTPError\<close> is a subclass of \<open>URLError\<close>; \<open>ValueError\<close> stands
  also for its subclasses \<open>JSONDecodeError\<close> and \<open>UnicodeDecodeError\<close>; \<open>OtherError\<close> is any
  exception of a class that no handler of this program names.
\<close>

datatype exn = URLError | HTTPError nat | ValueError | TimeoutError | AttributeError | KeyError
  | OtherError

text \<open>A value decoded by \<open>json.loads\<close>; \<open>JNull\<close> is Python's \<open>None\<close>.\<close>

datatype json = JNull | JBool bool | JNum rat | JStr string | JArr "json list"
  | JObj "(string \<times> json) list"

fun truthy :: "json \<Rightarrow> bool" where
  \<comment> \<open>the truth value Python's \<open>if\<close> gives a value\<close>
  "truthy JNull = False"
| "truthy (JBool b) = b"
| "truthy (JNum n) = (n \<noteq> 0)"
| "truthy (JStr s) = (s \<noteq> [])"
| "truthy (JArr xs) = (xs \<noteq> [])"
| "truthy (JObj kvs) = (kvs \<noteq> [])"

fun json_get :: "json \<Rightarrow> string \<Rightarrow> exn + json" where
  \<comment> \<open>\<open>data.get(key)\<close>: of a repeated key \<open>json.loads\<close> keeps the last value; only a dict has
     the method \<open>get\<close>\<close>
  "json_get (JObj kvs) key = Inr (case map_of (rev kvs) key of None \<Rightarrow> JNull | Some v \<Rightarrow> v)"
| "json_get _ key = Inl AttributeError"

text \<open>
  What this program does not contain is a parameter: \<open>difflib.get_close_matches\<close>, the two
  environment variables read at import time, and the remote service. \<open>urlopen url key
  description\<close> is the outcome of the request and of reading its body: an exception raised by
  \<open>request.urlopen\<close> or by \<open>response.read()\<close>, or a status with the body, where the body is
  \<open>None\<close> when decoding it or \<open>json.loads\<close> raises \<open>ValueError\<close>.
\<close>

datatype reply = Raises exn | Reply nat "json option"

record env =
  API_URL :: "string option"
  API_KEY :: "string option"
  get_close_matches :: "string \<Rightarrow> string list \<Rightarrow> nat \<Rightarrow> rat \<Rightarrow> string list"
  urlopen :: "string \<Rightarrow> string \<Rightarrow> string \<Rightarrow> reply"

fun split_tokens :: "string \<Rightarrow> string \<Rightarrow> string list" where
  \<comment> \<open>\<open>[token for token in re.split(r"[^\\w&]+", description) if token]\<close>, the first argument
     being the token read so far\<close>
  "split_tokens cur [] = (if cur = [] then [] else [cur])"
| "split_tokens cur (c # cs) =
     (if is_word c \<or> c = CHR ''&'' then split_tokens (cur @ [c]) cs
      else (if cur = [] then [] else [cur]) @ split_tokens [] cs)"

definition fuzzy_target :: "string \<Rightarrow> exn + mapping option" where
  \<comment> \<open>\<open>return FUZZY_TARGETS[matches[0]]\<close>\<close>
  "fuzzy_target name =
     (case map_of FUZZY_TARGETS name of None \<Rightarrow> Inl KeyError | Some m \<Rightarrow> Inr (Some m))"

fun fuzzy_tokens :: "env \<Rightarrow> string list \<Rightarrow> string list \<Rightarrow> (exn + mapping option) option" where
  \<comment> \<open>the \<open>for token in tokens\<close> loop; \<open>None\<close> when the loop ends without returning\<close>
  "fuzzy_tokens e candidates [] = None"
| "fuzzy_tokens e candidates (token # tokens) =
     (case get_close_matches e token candidates 1 (92 / 100) of
        [] \<Rightarrow> fuzzy_tokens e candidates tokens
      | m # _ \<Rightarrow> Some (fuzzy_target m))"

definition fuzzy_lookup :: "env \<Rightarrow> string \<Rightarrow> exn + mapping option" where
  "fuzzy_lookup e description =
     (let tokens = split_tokens [] description;
          candidates = map fst FUZZY_TARGETS
      in case fuzzy_tokens e candidates tokens of
           Some r \<Rightarrow> r
         | None \<Rightarrow>
             (case get_close_matches e description candidates 1 (8 / 10) of
                [] \<Rightarrow> Inr None
              | m # _ \<Rightarrow> fuzzy_target m))"

definition configured :: "string option \<Rightarrow> bool" where
  \<comment> \<open>the truth value of what \<open>os.getenv\<close> returned\<close>
  "configured v = (case v of None \<Rightarrow> False | Some s \<Rightarrow> s \<noteq> [])"

definition caught :: "exn \<Rightarrow> bool" where
  \<comment> \<open>\<open>except (error.URLError, ValueError, TimeoutError)\<close>\<close>
  "caught x = (case x of URLError \<Rightarrow> True | HTTPError _ \<Rightarrow> True | ValueError \<Rightarrow> True
                | TimeoutError \<Rightarrow> True | _ \<Rightarrow> False)"

definition call_enrichment_api :: "env \<Rightarrow> string \<Rightarrow> exn + (json \<times> json) option" where
  \<comment> \<open>\<open>_call_enrichment_api\<close>. Its \<open>lru_cache\<close> returns a stored result for a description seen
     before; \<open>urlopen\<close> being a function of the description, the results are the same.\<close>
  "call_enrichment_api e description =
     (if \<not> configured (API_URL e) \<or> \<not> configured (API_KEY e) then Inr None
      else
        (case urlopen e (the (API_URL e)) (the (API_KEY e)) description of
           Raises x \<Rightarrow> if caught x then Inr None else Inl x
         | Reply status body \<Rightarrow>
             if status \<ge> 400 then Inr None
             else
               (case body of
                  None \<Rightarrow> Inr None
                | Some data \<Rightarrow>
                    (case json_get data ''category'' of
                       Inl x \<Rightarrow> if caught x then Inr None else Inl x
                     | Inr category \<Rightarrow>
                         (case json_get data ''sub_category'' of
                            Inl x \<Rightarrow> if caught x then Inr None else Inl x
                          | Inr sub_category \<Rightarrow>
                              if truthy category \<and> truthy sub_category
                              then Inr (Some (category, sub_category))
                              else if truthy category
                              then Inr (Some (category, JStr ''Others''))
                              else Inr None)))))"

text \<open>
  A row of a table. A table is the list of its rows; a column the table does not have
  reads as null in every row. \<open>date\<close> is a calendar day, counted in days since 1970-01-01,
  \<open>amount\<close> and \<open>balance\<close> are exact decimals; \<open>None\<close> is pandas' missing value (NaT, NaN).
  \<open>cls\<close> is the column \<open>class\<close>.
\<close>

record txn =
  date :: "int option"
  description :: "string option"
  amount :: "rat option"
  account_name :: "string option"
  balance :: "rat option"
  cls :: "string option"
  weekday_name :: "string option"
  month :: "string option"
  category :: json
  sub_category :: json

definition class_of_amount :: "rat option \<Rightarrow> string" where
  \<comment> \<open>\<open>np.where(amount > 0, "Earnings", "Expenses")\<close>; a comparison with NaN is false\<close>
  "class_of_amount a =
     (case a of None \<Rightarrow> ''Expenses'' | Some x \<Rightarrow> if x > 0 then ''Earnings'' else ''Expenses'')"

definition py_str :: "string option \<Rightarrow> string" where
  \<comment> \<open>\<open>str(description)\<close>; a missing cell is NaN\<close>
  "py_str d = (case d of None \<Rightarrow> ''nan'' | Some s \<Rightarrow> s)"

definition as_json :: "mapping \<Rightarrow> json \<times> json" where
  "as_json m = (JStr (fst m), JStr (snd m))"

definition default_mapping :: "string option \<Rightarrow> mapping" where
  \<comment> \<open>\<open>DEFAULT_MAPPING.get(row_class, DEFAULT_MAPPING["Expenses"])\<close>\<close>
  "default_mapping row_class =
     (case row_class of
        None \<Rightarrow> the (map_of DEFAULT_MAPPING ''Expenses'')
      | Some c \<Rightarrow>
          (case map_of DEFAULT_MAPPING c of
             Some m \<Rightarrow> m
           | None \<Rightarrow> the (map_of DEFAULT_MAPPING ''Expenses'')))"

definition classify_row ::
  "env \<Rightarrow> bool \<Rightarrow> string option \<Rightarrow> string option \<Rightarrow> exn + (json \<times> json)" where
  \<comment> \<open>the body of the loop over the rows in \<open>classify_transactions\<close>\<close>
  "classify_row e use_api descr row_class =
     (let normalized_description = normalize (py_str descr) in
      case deterministic_lookup normalized_description of
        Some m \<Rightarrow> Inr (as_json m)
      | None \<Rightarrow>
          (case fuzzy_lookup e normalized_description of
             Inl x \<Rightarrow> Inl x
           | Inr (Some m) \<Rightarrow> Inr (as_json m)
           | Inr None \<Rightarrow>
               (case (if use_api then call_enrichment_api e normalized_description
                      else Inr None) of
                  Inl x \<Rightarrow> Inl x
                | Inr (Some api_mapping) \<Rightarrow> Inr api_mapping
                | Inr None \<Rightarrow> Inr (as_json (default_mapping row_class)))))"

fun classify_rows :: "env \<Rightarrow> bool \<Rightarrow> txn list \<Rightarrow> exn + txn list" where
  \<comment> \<open>the loop, and the assignment of the two new columns; the first exception ends it\<close>
  "classify_rows e use_api [] = Inr []"
| "classify_rows e use_api (r # rs) =
     (case classify_row e use_api (description r) (cls r) of
        Inl x \<Rightarrow> Inl x
      | Inr m \<Rightarrow>
          (case classify_rows e use_api rs of
             Inl x \<Rightarrow> Inl x
           | Inr out \<Rightarrow> Inr (r\<lparr>category := fst m, sub_category := snd m\<rparr> # out)))"

definition classify_transactions :: "env \<Rightarrow> bool \<Rightarrow> bool \<Rightarrow> txn list \<Rightarrow> exn + txn list" where
  \<comment> \<open>\<open>has_class\<close>: the table has a column \<open>class\<close>\<close>
  "classify_transactions e use_api has_class df =
     (if df = [] then Inr []
      else
        (let classified =
               (if \<not> has_class then map (\<lambda>r. r\<lparr>cls := Some (class_of_amount (amount r))\<rparr>) df
                else df)
         in classify_rows e use_api classified))"



text \<open>Sample data: a row with every cell missing, an environment without configuration.\<close>

definition row0 :: txn where
  "row0 = \<lparr>date = None, description = None, amount = None, account_name = None,
           balance = None, cls = None, weekday_name = None, month = None,
           category = JNull, sub_category = JNull\<rparr>"







section \<open>Transaction cleaner (cleaning.py)\<close>

text \<open>
  The three patterns of \<open>DESCRIPTION_TRAILING_PATTERNS\<close> are anchored at the end by \<open>$\<close>,
  which matches at the end of the string and before a newline that ends it. A matcher
  takes the text at a position and returns what the match leaves after it (nothing, or
  that newline), or \<open>None\<close> when the pattern does not match there. The optional parts
  \<open>\\.?\<close>, \<open>\\s?\<close>, \<open>#?\<close> are greedy; what may follow each of them cannot start with the
  character it takes, so taking the character loses no match.
\<close>

fun match_literal :: "string \<Rightarrow> string \<Rightarrow> string option" where
  \<comment> \<open>a lower-case literal under \<open>re.IGNORECASE\<close>; the rest of the text after it\<close>
  "match_literal [] s = Some s"
| "match_literal (p # ps) [] = None"
| "match_literal (p # ps) (c # cs) = (if lower_char c = p then match_literal ps cs else None)"

definition optional_char :: "(char \<Rightarrow> bool) \<Rightarrow> string \<Rightarrow> string" where
  "optional_char p s = (case s of [] \<Rightarrow> [] | c # cs \<Rightarrow> if p c then cs else s)"

definition digits_to_end :: "nat \<Rightarrow> string \<Rightarrow> string option" where
  \<comment> \<open>\<open>\\d{n,}$\<close>\<close>
  "digits_to_end n s =
     (let ds = takeWhile is_digit s; rest = dropWhile is_digit s
      in if n \<le> length ds \<and> (rest = [] \<or> rest = [CHR 0x0A]) then Some rest else None)"

definition pattern_ref :: "string \<Rightarrow> string option" where
  \<comment> \<open>\<open>ref\\.?\\s?#?\\d+$\<close>\<close>
  "pattern_ref s =
     (case match_literal ''ref'' s of
        None \<Rightarrow> None
      | Some r \<Rightarrow>
          digits_to_end 1
            (optional_char (\<lambda>c. c = CHR ''#'')
               (optional_char is_space (optional_char (\<lambda>c. c = CHR ''.'') r))))"

definition pattern_transaction :: "string \<Rightarrow> string option" where
  \<comment> \<open>\<open>transaction\\s?#?\\d+$\<close>\<close>
  "pattern_transaction s =
     (case match_literal ''transaction'' s of
        None \<Rightarrow> None
      | Some r \<Rightarrow> digits_to_end 1 (optional_char (\<lambda>c. c = CHR ''#'') (optional_char is_space r)))"

definition pattern_digits :: "string \<Rightarrow> string option" where
  \<comment> \<open>\<open>\\d{4,}$\<close>\<close>
  "pattern_digits s = digits_to_end 4 s"

definition DESCRIPTION_TRAILING_PATTERNS :: "(string \<Rightarrow> string option) list" where
  "DESCRIPTION_TRAILING_PATTERNS = [pattern_ref, pattern_transaction, pattern_digits]"

definition word_boundary :: "char option \<Rightarrow> char \<Rightarrow> bool" where
  \<comment> \<open>\<open>\\b\<close> between the previous character (none at the start) and the next one\<close>
  "word_boundary prev c = ((case prev of None \<Rightarrow> False | Some p \<Rightarrow> is_word p) \<noteq> is_word c)"

fun re_sub :: "(string \<Rightarrow> string option) \<Rightarrow> char option \<Rightarrow> string \<Rightarrow> string" where
  \<comment> \<open>\<open>re.sub(r"\\b" + pattern, "", s)\<close>: the leftmost match is removed; a pattern anchored
     at the end has no second match\<close>
  "re_sub m prev [] = []"
| "re_sub m prev (c # cs) =
     (case (if word_boundary prev c then m (c # cs) else None) of
        Some rest \<Rightarrow> rest
      | None \<Rightarrow> c # re_sub m (Some c) cs)"

definition standardize_description :: "string \<Rightarrow> string" where
  \<comment> \<open>on a \<open>str\<close>; the cells it is applied to are strings, missing ones filled with \<open>""\<close>\<close>
  "standardize_description text =
     (let cleaned = strip text;
          cleaned = collapse_ws cleaned;
          cleaned = strip_chars ''. '' cleaned
      in foldl (\<lambda>cleaned pattern. strip (re_sub pattern None cleaned)) cleaned
           DESCRIPTION_TRAILING_PATTERNS)"

fun drop_duplicates_from :: "'a list \<Rightarrow> 'a list \<Rightarrow> 'a list" where
  \<comment> \<open>\<open>DataFrame.drop_duplicates()\<close>: a row equal to one seen before is dropped\<close>
  "drop_duplicates_from seen [] = []"
| "drop_duplicates_from seen (r # rs) =
     (if r \<in> set seen then drop_duplicates_from seen rs
      else r # drop_duplicates_from (r # seen) rs)"

definition drop_duplicates :: "'a list \<Rightarrow> 'a list" where
  "drop_duplicates df = drop_duplicates_from [] df"

definition day_name :: "int \<Rightarrow> string" where
  \<comment> \<open>\<open>Series.dt.day_name()\<close>; 1970-01-01 was a Thursday\<close>
  "day_name d =
     [''Thursday'', ''Friday'', ''Saturday'', ''Sunday'', ''Monday'', ''Tuesday'', ''Wednesday'']
       ! nat (d mod 7)"

definition year_month :: "int \<Rightarrow> int \<times> int" where
  \<comment> \<open>year and month of a day of the proleptic Gregorian calendar\<close>
  "year_month d =
     (let z = d + 719468;
          era = z div 146097;
          doe = z - era * 146097;
          yoe = (doe - doe div 1460 + doe div 36524 - doe div 146096) div 365;
          doy = doe - (365 * yoe + yoe div 4 - yoe div 100);
          mp = (5 * doy + 2) div 153;
          m = (if mp < 10 then mp + 3 else mp - 9);
          y = yoe + era * 400 + (if m \<le> 2 then 1 else 0)
      in (y, m))"

definition digit_char :: "int \<Rightarrow> char" where
  "digit_char n = char_of (48 + nat (n mod 10))"

definition month_str :: "int \<Rightarrow> string" where
  \<comment> \<open>\<open>Series.dt.to_period("M").astype(str)\<close>: \<open>YYYY-MM\<close>; a Timestamp's year has four digits\<close>
  "month_str d =
     (let (y, m) = year_month d
      in [digit_char (y div 1000), digit_char (y div 100), digit_char (y div 10), digit_char y]
         @ ''-'' @ [digit_char (m div 10), digit_char m])"

definition fillna :: "'a \<Rightarrow> 'a option \<Rightarrow> 'a" where
  "fillna v c = (case c of None \<Rightarrow> v | Some x \<Rightarrow> x)"

definition clean_row :: "txn \<Rightarrow> txn" where
  \<comment> \<open>the column assignments of \<open>clean_transactions\<close>, on a row that has a date\<close>
  "clean_row r =
     r\<lparr>description := Some (standardize_description (fillna '''' (description r))),
       account_name := Some (lower (fillna ''chequing'' (account_name r))),
       cls := Some (class_of_amount (amount r)),
       weekday_name := Some (day_name (the (date r))),
       month := Some (month_str (the (date r)))\<rparr>"

definition clean_transactions :: "txn list \<Rightarrow> txn list" where
  \<comment> \<open>\<open>to_datetime\<close> and \<open>to_numeric\<close> leave a date column and a number column as they are\<close>
  "clean_transactions df =
     (if df = [] then df
      else
        (let cleaned = drop_duplicates df;
             cleaned = filter (\<lambda>r. date r \<noteq> None \<and> amount r \<noteq> None) cleaned
         in map clean_row cleaned))"

text \<open>Sample tables for the cleaner.\<close>

definition statement :: "txn list" where
  "statement =
     [row0\<lparr>date := Some 19724, description := Some ''Side Gig Payment'', amount := Some 420\<rparr>,
      row0\<lparr>date := Some 19725, description := Some ''Fee   reversal'', amount := Some 0\<rparr>,
      row0\<lparr>date := Some 19726, description := Some ''Parking Meter 12345'',
           amount := Some (-3)\<rparr>,
      row0\<lparr>date := None, description := Some ''Pending'', amount := Some 5\<rparr>]"



section \<open>Transfer deduplicator (io_utils.py)\<close>
































section \<open>Schema normalizer (io_utils.py)\<close>

































section \<open>Properties of the keyword lookup\<close>

lemma scan_keywords_None:
  "scan_keywords tbl d = None \<longleftrightarrow> (\<forall>i < length tbl. \<not> py_in (fst (tbl ! i)) d)"
proof (induction tbl)
  case Nil
  show ?case by simp
next
  case (Cons e tbl)
  obtain k m where e: "e = (k, m)" by (cases e)
  show ?case
    by (simp add: e Cons.IH All_less_Suc2)
qed

lemma scan_keywords_Some:
  "scan_keywords tbl d = Some m \<longleftrightarrow>
     (\<exists>i < length tbl. snd (tbl ! i) = m \<and> py_in (fst (tbl ! i)) d \<and>
        (\<forall>j < i. \<not> py_in (fst (tbl ! j)) d))"
proof (induction tbl)
  case Nil
  show ?case by simp
next
  case (Cons e tbl)
  obtain k v where e: "e = (k, v)" by (cases e)
  show ?case
  proof (cases "py_in k d")
    case True
    have "(\<exists>i < Suc (length tbl). snd ((e # tbl) ! i) = m \<and> py_in (fst ((e # tbl) ! i)) d \<and>
             (\<forall>j < i. \<not> py_in (fst ((e # tbl) ! j)) d)) \<longleftrightarrow> v = m"
    proof
      assume "\<exists>i < Suc (length tbl). snd ((e # tbl) ! i) = m \<and> py_in (fst ((e # tbl) ! i)) d \<and>
             (\<forall>j < i. \<not> py_in (fst ((e # tbl) ! j)) d)"
      then obtain i where i: "snd ((e # tbl) ! i) = m"
        and least: "\<forall>j < i. \<not> py_in (fst ((e # tbl) ! j)) d" by blast
      have "i = 0"
      proof (rule ccontr)
        assume "i \<noteq> 0"
        then have "0 < i" by simp
        with least have "\<not> py_in (fst ((e # tbl) ! 0)) d" by blast
        with True e show False by simp
      qed
      with i e show "v = m" by simp
    next
      assume "v = m"
      with True e show "\<exists>i < Suc (length tbl). snd ((e # tbl) ! i) = m \<and>
          py_in (fst ((e # tbl) ! i)) d \<and> (\<forall>j < i. \<not> py_in (fst ((e # tbl) ! j)) d)"
        by (intro exI [of _ 0]) simp
    qed
    with True e show ?thesis by simp
  next
    case False
    have "(\<exists>i < Suc (length tbl). snd ((e # tbl) ! i) = m \<and> py_in (fst ((e # tbl) ! i)) d \<and>
             (\<forall>j < i. \<not> py_in (fst ((e # tbl) ! j)) d)) \<longleftrightarrow>
          (\<exists>i < length tbl. snd (tbl ! i) = m \<and> py_in (fst (tbl ! i)) d \<and>
             (\<forall>j < i. \<not> py_in (fst (tbl ! j)) d))"
      using False e by (simp add: Ex_less_Suc2 All_less_Suc2)
    with False e Cons.IH show ?thesis by simp
  qed
qed

lemma scan_keywords_append:
  "scan_keywords (xs @ ys) d =
     (case scan_keywords xs d of Some m \<Rightarrow> Some m | None \<Rightarrow> scan_keywords ys d)"
  by (induction xs) auto

lemma scan_keywords_none_all:
  "list_all (\<lambda>(k, m). \<not> py_in k d) xs \<Longrightarrow> scan_keywords xs d = None"
  by (induction xs) auto

lemma rent_wins:
  assumes "py_in ''rent'' d"
    and "list_all (\<lambda>(k, m). \<not> py_in k d) (take 6 DETERMINISTIC_KEYWORDS)"
  shows "deterministic_lookup d = Some (''Housing'', ''Rent'')"
proof -
  have split: "DETERMINISTIC_KEYWORDS =
      take 6 DETERMINISTIC_KEYWORDS @ (''rent'', (''Housing'', ''Rent'')) # drop 7 DETERMINISTIC_KEYWORDS"
    by (simp add: DETERMINISTIC_KEYWORDS_def)
  have "scan_keywords (take 6 DETERMINISTIC_KEYWORDS @
          (''rent'', (''Housing'', ''Rent'')) # drop 7 DETERMINISTIC_KEYWORDS) d =
        Some (''Housing'', ''Rent'')"
    using assms by (simp add: scan_keywords_append scan_keywords_none_all)
  with split show ?thesis unfolding deterministic_lookup_def by simp
qed

text \<open>
  C8, as stated, fails: a description can contain \<open>rent\<close> and \<open>transfer\<close> and an earlier
  keyword as well, and then the earlier keyword decides. The description
  \<open>payroll rent transfer\<close> is classified by \<open>payroll\<close>, not by \<open>rent\<close>.
\<close>

theorem deterministic_lookup_rent_transfer_counterexample:
  "py_in ''rent'' ''payroll rent transfer'' \<and> py_in ''transfer'' ''payroll rent transfer'' \<and>
   deterministic_lookup ''payroll rent transfer'' = Some (''Income'', ''Salary'') \<and>
   deterministic_lookup ''payroll rent transfer'' \<noteq> Some (''Housing'', ''Rent'')"
  by code_simp

text \<open>
  C8, amended: \<open>deterministic_lookup\<close> returns the mapping of the first keyword, in the order
  of the table, that occurs in the description as a substring, and \<open>None\<close> when no keyword
  occurs. \<open>rent\<close> is entry 6 of the table and \<open>transfer\<close> entry 20: a description that
  contains both, and none of the six keywords before \<open>rent\<close>, gets the mapping of \<open>rent\<close>.
\<close>

theorem deterministic_lookup_first_keyword:
  "(deterministic_lookup d = Some m \<longleftrightarrow>
      (\<exists>i < length DETERMINISTIC_KEYWORDS.
          snd (DETERMINISTIC_KEYWORDS ! i) = m \<and> py_in (fst (DETERMINISTIC_KEYWORDS ! i)) d \<and>
          (\<forall>j < i. \<not> py_in (fst (DETERMINISTIC_KEYWORDS ! j)) d))) \<and>
   (deterministic_lookup d = None \<longleftrightarrow>
      (\<forall>i < length DETERMINISTIC_KEYWORDS. \<not> py_in (fst (DETERMINISTIC_KEYWORDS ! i)) d)) \<and>
   DETERMINISTIC_KEYWORDS ! 6 = (''rent'', (''Housing'', ''Rent'')) \<and>
   DETERMINISTIC_KEYWORDS ! 20 = (''transfer'', (''Transfers'', ''Internal Transfer'')) \<and>
   (py_in ''rent'' d \<and> py_in ''transfer'' d \<and>
    list_all (\<lambda>(k, m). \<not> py_in k d) (take 6 DETERMINISTIC_KEYWORDS) \<longrightarrow>
      deterministic_lookup d = Some (''Housing'', ''Rent''))"
proof (intro conjI impI)
  show "deterministic_lookup d = Some m \<longleftrightarrow>
      (\<exists>i < length DETERMINISTIC_KEYWORDS.
          snd (DETERMINISTIC_KEYWORDS ! i) = m \<and> py_in (fst (DETERMINISTIC_KEYWORDS ! i)) d \<and>
          (\<forall>j < i. \<not> py_in (fst (DETERMINISTIC_KEYWORDS ! j)) d))"
    unfolding deterministic_lookup_def by (rule scan_keywords_Some)
  show "deterministic_lookup d = None \<longleftrightarrow>
      (\<forall>i < length DETERMINISTIC_KEYWORDS. \<not> py_in (fst (DETERMINISTIC_KEYWORDS ! i)) d)"
    unfolding deterministic_lookup_def by (rule scan_keywords_None)
  show "DETERMINISTIC_KEYWORDS ! 6 = (''rent'', (''Housing'', ''Rent''))"
    by (simp add: DETERMINISTIC_KEYWORDS_def)
  show "DETERMINISTIC_KEYWORDS ! 20 = (''transfer'', (''Transfers'', ''Internal Transfer''))"
    by (simp add: DETERMINISTIC_KEYWORDS_def)
  assume "py_in ''rent'' d \<and> py_in ''transfer'' d \<and>
    list_all (\<lambda>(k, m). \<not> py_in k d) (take 6 DETERMINISTIC_KEYWORDS)"
  then show "deterministic_lookup d = Some (''Housing'', ''Rent'')"
    by (simp add: rent_wins)
qed

theorem deterministic_lookup_first_keyword_witness:
  "py_in ''rent'' ''rent downtown transfer'' \<and> py_in ''transfer'' ''rent downtown transfer'' \<and>
   list_all (\<lambda>(k, m). \<not> py_in k ''rent downtown transfer'') (take 6 DETERMINISTIC_KEYWORDS) \<and>
   deterministic_lookup ''rent downtown transfer'' = Some (''Housing'', ''Rent'')"
proof -
  have h: "py_in ''rent'' ''rent downtown transfer'' \<and>
      py_in ''transfer'' ''rent downtown transfer'' \<and>
      list_all (\<lambda>(k, m). \<not> py_in k ''rent downtown transfer'') (take 6 DETERMINISTIC_KEYWORDS)"
    by code_simp
  with deterministic_lookup_first_keyword [of "''rent downtown transfer''"]
  show ?thesis by blast
qed


section \<open>Properties of the classifier\<close>

lemma json_get_cases: "json_get data k = Inr v \<Longrightarrow> \<exists>kvs. data = JObj kvs"
  by (cases data) auto







text \<open>
  Without the remote call, and with a \<open>get_close_matches\<close> that returns only names it was
  given (as \<open>difflib\<close>'s does), the classification of a table returns.
\<close>

lemma fuzzy_target_candidate:
  "m \<in> set (map fst FUZZY_TARGETS) \<Longrightarrow> \<exists>r. fuzzy_target m = Inr r"
  unfolding fuzzy_target_def
  by (cases "map_of FUZZY_TARGETS m") (auto simp: map_of_eq_None_iff)

lemma fuzzy_tokens_returns:
  assumes "\<forall>w ps n c. set (get_close_matches e w ps n c) \<subseteq> set ps"
    and "fuzzy_tokens e (map fst FUZZY_TARGETS) tokens = Some r"
  shows "\<exists>m. r = Inr m"
  using assms(2)
proof (induction tokens)
  case Nil
  then show ?case by simp
next
  case (Cons t ts)
  show ?case
  proof (cases "get_close_matches e t (map fst FUZZY_TARGETS) 1 (92 / 100)")
    case Nil
    with Cons show ?thesis by simp
  next
    case (Cons m ms)
    with assms(1) have "m \<in> set (map fst FUZZY_TARGETS)"
      by (metis list.set_intros(1) subsetD)
    from fuzzy_target_candidate [OF this] Cons Cons.prems show ?thesis by auto
  qed
qed

lemma fuzzy_lookup_returns:
  assumes "\<forall>w ps n c. set (get_close_matches e w ps n c) \<subseteq> set ps"
  shows "\<exists>m. fuzzy_lookup e d = Inr m"
proof (cases "fuzzy_tokens e (map fst FUZZY_TARGETS) (split_tokens [] d)")
  case (Some r)
  with fuzzy_tokens_returns [OF assms Some] show ?thesis
    by (auto simp: fuzzy_lookup_def Let_def)
next
  case None
  show ?thesis
  proof (cases "get_close_matches e d (map fst FUZZY_TARGETS) 1 (8 / 10)")
    case Nil
    with None show ?thesis by (simp add: fuzzy_lookup_def Let_def)
  next
    case (Cons m ms)
    with assms have "m \<in> set (map fst FUZZY_TARGETS)"
      by (metis list.set_intros(1) subsetD)
    from fuzzy_target_candidate [OF this] Cons None show ?thesis
      by (auto simp: fuzzy_lookup_def Let_def)
  qed
qed

lemma classify_row_returns:
  assumes "\<forall>w ps n c. set (get_close_matches e w ps n c) \<subseteq> set ps"
  shows "\<exists>m. classify_row e False d c = Inr m"
proof -
  from fuzzy_lookup_returns [OF assms] obtain m where
    "fuzzy_lookup e (normalize (py_str d)) = Inr m" by blast
  then show ?thesis
    by (auto simp: classify_row_def Let_def split: option.splits)
qed

lemma classify_rows_returns:
  assumes "\<forall>w ps n c. set (get_close_matches e w ps n c) \<subseteq> set ps"
  shows "\<exists>out. classify_rows e False rs = Inr out"
proof (induction rs)
  case Nil
  show ?case by simp
next
  case (Cons r rs)
  from classify_row_returns [OF assms] obtain m where
    "classify_row e False (description r) (cls r) = Inr m" by blast
  with Cons show ?case by auto
qed

lemma classify_transactions_returns:
  assumes "\<forall>w ps n c. set (get_close_matches e w ps n c) \<subseteq> set ps"
  shows "\<exists>out. classify_transactions e False has_class df = Inr out"
  using classify_rows_returns [OF assms]
  by (simp add: classify_transactions_def Let_def)




section \<open>Properties of the remote enrichment\<close>

lemma non_object_body_raises:
  assumes "configured (API_URL e)" and "configured (API_KEY e)"
    and "urlopen e (the (API_URL e)) (the (API_KEY e)) d = Reply 200 (Some (JArr xs))"
  shows "call_enrichment_api e d = Inl AttributeError"
  using assms unfolding call_enrichment_api_def by (simp add: caught_def)




section \<open>Properties of the cleaner\<close>



lemma drop_duplicates_from_subset: "set (drop_duplicates_from seen rs) \<subseteq> set rs"
  by (induction rs arbitrary: seen) auto



lemma clean_transactions_rows:
  assumes "r \<in> set (clean_transactions df)"
  shows "\<exists>r0 \<in> set df. date r0 \<noteq> None \<and> amount r0 \<noteq> None \<and> r = clean_row r0"
proof (cases "df = []")
  case True
  with assms show ?thesis by (simp add: clean_transactions_def)
next
  case False
  with assms obtain r0 where "r0 \<in> set (drop_duplicates df)"
    "date r0 \<noteq> None" "amount r0 \<noteq> None" "r = clean_row r0"
    by (auto simp: clean_transactions_def Let_def)
  moreover have "set (drop_duplicates df) \<subseteq> set df"
    by (simp add: drop_duplicates_def drop_duplicates_from_subset)
  ultimately show ?thesis by blast
qed


text \<open>
  C2: a row that \<open>clean_transactions\<close> returns has an amount and a class; the class is
  \<open>Earnings\<close> exactly when the amount is positive, and \<open>Expenses\<close> exactly when it is
  zero or negative.
\<close>

theorem clean_transactions_class:
  assumes "r \<in> set (clean_transactions df)"
  shows "\<exists>a. amount r = Some a \<and> cls r \<noteq> None \<and>
           (cls r = Some ''Earnings'' \<longleftrightarrow> a > 0) \<and> (cls r = Some ''Expenses'' \<longleftrightarrow> a \<le> 0)"
proof -
  from clean_transactions_rows [OF assms] obtain r0 a where
    "amount r0 = Some a" and r: "r = clean_row r0" by auto
  then show ?thesis
    by (auto simp: clean_row_def class_of_amount_def)
qed

theorem clean_transactions_class_witness:
  "clean_row (statement ! 1) \<in> set (clean_transactions statement) \<and>
   amount (clean_row (statement ! 1)) = Some 0 \<and>
   cls (clean_row (statement ! 1)) = Some ''Expenses''"
proof -
  have m: "clean_row (statement ! 1) \<in> set (clean_transactions statement)"
    by code_simp
  have a: "amount (clean_row (statement ! 1)) = Some 0"
    by (simp add: clean_row_def statement_def row0_def)
  from clean_transactions_class [OF m] a
  have "cls (clean_row (statement ! 1)) = Some ''Expenses''" by auto
  with m a show ?thesis by simp
qed





section \<open>Properties of the deduplicator\<close>








































section \<open>Properties of the normalizer\<close>

















end
